theory Spec2Isabelle
  imports Complex_Main
begin

section \<open>Numbers and text\<close>

text \<open>
  The front end computes on JavaScript numbers. Times, durations and sizes are modelled as
  exact reals: every operation below (\<open>Math.min\<close>, \<open>Math.max\<close>, \<open>Math.floor\<close>,
  \<open>Math.ceil\<close>, comparison, addition, multiplication by a constant) is read with its
  mathematical meaning on finite values. Where the source can produce \<open>NaN\<close> the model
  says so with an \<open>option\<close> (\<open>None\<close> is \<open>NaN\<close>).

  Text is \<open>string\<close>; the user-visible literals of the source that are not ASCII are given
  by their UTF-8 bytes.
\<close>

section \<open>Preview window arithmetic (VideoPlayer, TimeRangeEditor)\<close>

text \<open>
  Both components declare the same constants and the same two helpers; \<open>timelineDuration\<close>
  (the \<open>duration\<close> prop of the editor, \<open>totalDuration ?? duration\<close> in the player) is a
  parameter here.
\<close>

definition HLS_SEGMENT_SECONDS :: real where
  "HLS_SEGMENT_SECONDS = 2"

definition HLS_WINDOW_SECONDS :: real where
  "HLS_WINDOW_SECONDS = 10 * 60"

definition HLS_WINDOW_PADDING :: real where
  "HLS_WINDOW_PADDING = 0"

definition clampTime :: "real \<Rightarrow> real \<Rightarrow> real" where
  "clampTime timelineDuration time =
     (if timelineDuration > 0 then min (max time 0) timelineDuration
      else max time 0)"

definition computeWindowStart :: "real \<Rightarrow> real \<Rightarrow> real" where
  "computeWindowStart timelineDuration time =
     (let padding = min HLS_WINDOW_PADDING (HLS_WINDOW_SECONDS / 2);
          maxStart = (if timelineDuration > 0
                      then max 0 (timelineDuration - HLS_WINDOW_SECONDS)
                      else max 0 (time - padding));
          rawStart = min (max (time - padding) 0) maxStart
      in of_int \<lfloor>rawStart / HLS_SEGMENT_SECONDS\<rfloor> * HLS_SEGMENT_SECONDS)"

section \<open>Preview source and player state\<close>

text \<open>
  \<open>usePreviewSource\<close> returns \<open>source\<close>, \<open>isPreparing\<close> and \<open>prepareError\<close>; the player
  and the range editor keep, next to it, the state of the seek logic. One record holds
  what the handlers below read and write. The component fields \<open>isLoading\<close> and
  \<open>error\<close> are called \<open>playerLoading\<close> and \<open>playerError\<close> (the split hook has fields of
  the same names). \<open>mediaTime\<close> is \<open>videoRef.current.currentTime\<close>: \<open>None\<close> while the ref
  is null, and an assignment to it is then skipped, as the source's
  \<open>if (videoRef.current)\<close> does.
\<close>

datatype PreviewSourceKind = File | Hls

record PreviewSource =
  kind :: PreviewSourceKind
  path :: string

record player_state =
  currentTime :: real
  playerLoading :: bool
  playerError :: "string option"
  windowStart :: real
  pendingSeek :: "real option"
  retryToken :: nat
  source :: "PreviewSource option"
  isPreparing :: bool
  prepareError :: "string option"
  mediaTime :: "real option"

text \<open>The \<open>useState\<close> defaults of the component, before the first effect has run.\<close>

definition initial_player :: player_state where
  "initial_player =
     \<lparr>currentTime = 0, playerLoading = True, playerError = None, windowStart = 0,
      pendingSeek = None, retryToken = 0, source = None, isPreparing = False,
      prepareError = None, mediaTime = None\<rparr>"

section \<open>Playback errors (handleError)\<close>

text \<open>
  The codes of the platform's \<open>MediaError\<close> interface (HTML standard), which the source
  names but does not define.
\<close>

definition MEDIA_ERR_ABORTED :: nat where
  "MEDIA_ERR_ABORTED = 1"

definition MEDIA_ERR_NETWORK :: nat where
  "MEDIA_ERR_NETWORK = 2"

definition MEDIA_ERR_DECODE :: nat where
  "MEDIA_ERR_DECODE = 3"

definition MEDIA_ERR_SRC_NOT_SUPPORTED :: nat where
  "MEDIA_ERR_SRC_NOT_SUPPORTED = 4"

text \<open>
  The five message literals of \<open>handleError\<close>, as UTF-8: the default ("video failed to
  load"), then the messages for an aborted load, a network error, a decode failure and an
  unsupported or missing source.
\<close>

definition msg_load_failed :: string where
  "msg_load_failed =
     [CHR 0xE8, CHR 0xA7, CHR 0x86, CHR 0xE9, CHR 0xA2, CHR 0x91, CHR 0xE5, CHR 0x8A,
      CHR 0xA0, CHR 0xE8, CHR 0xBD, CHR 0xBD, CHR 0xE5, CHR 0xA4, CHR 0xB1, CHR 0xE8,
      CHR 0xB4, CHR 0xA5]"

definition msg_aborted :: string where
  "msg_aborted =
     [CHR 0xE8, CHR 0xA7, CHR 0x86, CHR 0xE9, CHR 0xA2, CHR 0x91, CHR 0xE5, CHR 0x8A,
      CHR 0xA0, CHR 0xE8, CHR 0xBD, CHR 0xBD, CHR 0xE8, CHR 0xA2, CHR 0xAB, CHR 0xE4,
      CHR 0xB8, CHR 0xAD, CHR 0xE6, CHR 0x96, CHR 0xAD]"

definition msg_network :: string where
  "msg_network =
     [CHR 0xE7, CHR 0xBD, CHR 0x91, CHR 0xE7, CHR 0xBB, CHR 0x9C, CHR 0xE9, CHR 0x94,
      CHR 0x99, CHR 0xE8, CHR 0xAF, CHR 0xAF, CHR 0xE5, CHR 0xAF, CHR 0xBC, CHR 0xE8,
      CHR 0x87, CHR 0xB4, CHR 0xE8, CHR 0xA7, CHR 0x86, CHR 0xE9, CHR 0xA2, CHR 0x91,
      CHR 0xE5, CHR 0x8A, CHR 0xA0, CHR 0xE8, CHR 0xBD, CHR 0xBD, CHR 0xE5, CHR 0xA4,
      CHR 0xB1, CHR 0xE8, CHR 0xB4, CHR 0xA5]"

definition msg_decode :: string where
  "msg_decode =
     [CHR 0xE8, CHR 0xA7, CHR 0x86, CHR 0xE9, CHR 0xA2, CHR 0x91, CHR 0xE8, CHR 0xA7,
      CHR 0xA3, CHR 0xE7, CHR 0xA0, CHR 0x81, CHR 0xE5, CHR 0xA4, CHR 0xB1, CHR 0xE8,
      CHR 0xB4, CHR 0xA5, CHR 0xEF, CHR 0xBC, CHR 0x8C, CHR 0xE6, CHR 0xA0, CHR 0xBC,
      CHR 0xE5, CHR 0xBC, CHR 0x8F, CHR 0xE5, CHR 0x8F, CHR 0xAF, CHR 0xE8, CHR 0x83,
      CHR 0xBD, CHR 0xE4, CHR 0xB8, CHR 0x8D, CHR 0xE6, CHR 0x94, CHR 0xAF, CHR 0xE6,
      CHR 0x8C, CHR 0x81]"

definition msg_src_not_supported :: string where
  "msg_src_not_supported =
     [CHR 0xE8, CHR 0xA7, CHR 0x86, CHR 0xE9, CHR 0xA2, CHR 0x91, CHR 0xE6, CHR 0xA0,
      CHR 0xBC, CHR 0xE5, CHR 0xBC, CHR 0x8F, CHR 0xE4, CHR 0xB8, CHR 0x8D, CHR 0xE6,
      CHR 0x94, CHR 0xAF, CHR 0xE6, CHR 0x8C, CHR 0x81, CHR 0xE6, CHR 0x88, CHR 0x96,
      CHR 0xE6, CHR 0x96, CHR 0x87, CHR 0xE4, CHR 0xBB, CHR 0xB6, CHR 0xE4, CHR 0xB8,
      CHR 0x8D, CHR 0xE5, CHR 0xAD, CHR 0x98, CHR 0xE5, CHR 0x9C, CHR 0xA8]"

text \<open>
  The \<open>switch\<close> of \<open>handleError\<close>. Its argument is \<open>video?.error?.code\<close>: \<open>None\<close> when the
  ref is null or the element carries no error object.
\<close>

definition errorMessage :: "nat option \<Rightarrow> string" where
  "errorMessage code =
     (case code of
        None \<Rightarrow> msg_load_failed
      | Some c \<Rightarrow>
          if c = MEDIA_ERR_ABORTED then msg_aborted
          else if c = MEDIA_ERR_NETWORK then msg_network
          else if c = MEDIA_ERR_DECODE then msg_decode
          else if c = MEDIA_ERR_SRC_NOT_SUPPORTED then msg_src_not_supported
          else msg_load_failed)"

definition handleError :: "nat option \<Rightarrow> player_state \<Rightarrow> player_state" where
  "handleError code s = s\<lparr>playerError := Some (errorMessage code), playerLoading := False\<rparr>"

section \<open>Preparing the preview source (usePreviewSource)\<close>

text \<open>
  The options of the hook are optional fields (\<open>opt_\<close> before each name); \<open>??\<close> replaces
  a missing one by its default. The request is the command \<open>prepare_hls_source_command\<close>
  with the arguments \<open>inputPath\<close>, \<open>minSizeBytes\<close>, \<open>segmentSeconds\<close>, \<open>startSeconds\<close> and
  \<open>windowSeconds\<close>, in this order.
\<close>

record PreviewSourceOptions =
  opt_minSizeBytes :: "real option"
  opt_segmentSeconds :: "real option"
  opt_startSeconds :: "real option"
  opt_windowSeconds :: "real option"
  opt_requestKey :: "nat option"

datatype prepare_request = Prepare_hls_source_command string real real real real

definition DEFAULT_MIN_SIZE_BYTES :: real where
  "DEFAULT_MIN_SIZE_BYTES = 200 * 1024 * 1024"

definition DEFAULT_SEGMENT_SECONDS :: real where
  "DEFAULT_SEGMENT_SECONDS = 6"

definition nullish :: "'a option \<Rightarrow> 'a \<Rightarrow> 'a" where
  "nullish v d = (case v of None \<Rightarrow> d | Some x \<Rightarrow> x)"

text \<open>
  The dependency array of the effect, and the request that a run of the effect sends:
  none for the empty path.
\<close>

definition usePreviewSource_deps ::
    "string \<Rightarrow> PreviewSourceOptions \<Rightarrow> string \<times> real \<times> real \<times> real \<times> real \<times> nat" where
  "usePreviewSource_deps filePath options =
     (filePath,
      nullish (opt_minSizeBytes options) DEFAULT_MIN_SIZE_BYTES,
      nullish (opt_segmentSeconds options) DEFAULT_SEGMENT_SECONDS,
      nullish (opt_startSeconds options) 0,
      nullish (opt_windowSeconds options) 0,
      nullish (opt_requestKey options) 0)"

definition usePreviewSource_request ::
    "string \<Rightarrow> PreviewSourceOptions \<Rightarrow> prepare_request option" where
  "usePreviewSource_request filePath options =
     (if filePath = [] then None
      else Some (Prepare_hls_source_command filePath
             (nullish (opt_minSizeBytes options) DEFAULT_MIN_SIZE_BYTES)
             (nullish (opt_segmentSeconds options) DEFAULT_SEGMENT_SECONDS)
             (nullish (opt_startSeconds options) 0)
             (nullish (opt_windowSeconds options) 0)))"

text \<open>What a run of the effect does to the state before the command answers.\<close>

definition usePreviewSource_effect :: "string \<Rightarrow> player_state \<Rightarrow> player_state" where
  "usePreviewSource_effect filePath s =
     (if filePath = [] then s\<lparr>source := None, isPreparing := False, prepareError := None\<rparr>
      else s\<lparr>source := None, prepareError := None, isPreparing := True\<rparr>)"



definition usePreviewSource_rejected :: "bool \<Rightarrow> string \<Rightarrow> player_state \<Rightarrow> player_state" where
  "usePreviewSource_rejected cancelled err s =
     (if \<not> cancelled then s\<lparr>prepareError := Some err, isPreparing := False\<rparr> else s)"

section \<open>Seeking (VideoPlayer, TimeRangeEditor)\<close>

text \<open>
  The options with which the player and the editor call the hook, and the request that
  follows a change of state from \<open>s\<close> to \<open>s'\<close>: React runs the effect again when an entry
  of its dependency array has changed.
\<close>

definition HLS_MIN_SIZE :: real where
  "HLS_MIN_SIZE = 200 * 1024 * 1024"

definition player_options :: "player_state \<Rightarrow> PreviewSourceOptions" where
  "player_options s =
     \<lparr>opt_minSizeBytes = Some HLS_MIN_SIZE,
      opt_segmentSeconds = Some HLS_SEGMENT_SECONDS,
      opt_startSeconds = Some (windowStart s),
      opt_windowSeconds = Some HLS_WINDOW_SECONDS,
      opt_requestKey = Some (retryToken s)\<rparr>"

definition next_request :: "string \<Rightarrow> player_state \<Rightarrow> player_state \<Rightarrow> prepare_request option" where
  "next_request filePath s s' =
     (if usePreviewSource_deps filePath (player_options s)
           = usePreviewSource_deps filePath (player_options s')
      then None
      else usePreviewSource_request filePath (player_options s'))"

text \<open>
  \<open>seekToAbsolute\<close> returns whether the seek is deferred. An assignment to
  \<open>videoRef.current.currentTime\<close> is an assignment to \<open>mediaTime\<close>, skipped while the ref is
  null.
\<close>

definition set_media_time :: "real \<Rightarrow> player_state \<Rightarrow> player_state" where
  "set_media_time t s = s\<lparr>mediaTime := map_option (\<lambda>_. t) (mediaTime s)\<rparr>"

definition defer_seek :: "real \<Rightarrow> real \<Rightarrow> player_state \<Rightarrow> player_state" where
  "defer_seek timelineDuration target s =
     s\<lparr>windowStart := computeWindowStart timelineDuration target,
       pendingSeek := Some target,
       currentTime := target,
       playerLoading := True\<rparr>"

definition seekToAbsolute :: "real \<Rightarrow> real \<Rightarrow> player_state \<Rightarrow> bool \<times> player_state" where
  "seekToAbsolute timelineDuration time s =
     (let target = clampTime timelineDuration time in
      case source s of
        None \<Rightarrow> (True, defer_seek timelineDuration target s)
      | Some src \<Rightarrow>
          if kind src = File then (False, (set_media_time target s)\<lparr>currentTime := target\<rparr>)
          else
            let windowEnd = windowStart s + HLS_WINDOW_SECONDS in
            if target \<ge> windowStart s \<and> target \<le> windowEnd
            then (False, (set_media_time (target - windowStart s) s)\<lparr>currentTime := target\<rparr>)
            else (True, defer_seek timelineDuration target s))"

text \<open>The test of \<open>seekToAbsolute\<close> for a target inside the current window.\<close>

definition in_window :: "player_state \<Rightarrow> real \<Rightarrow> bool" where
  "in_window s target =
     (windowStart s \<le> target \<and> target \<le> windowStart s + HLS_WINDOW_SECONDS)"


definition hls_player :: player_state where
  "hls_player =
     initial_player\<lparr>playerLoading := False, mediaTime := Some 0,
       source := Some \<lparr>kind = Hls, path = ''/cache/a/index.m3u8''\<rparr>\<rparr>"

text \<open>
  The playlist player of a 1001-second video after a seek to second 900: the window is
  the last one, and starts at second 400.
\<close>

definition last_window_player :: player_state where
  "last_window_player = hls_player\<lparr>windowStart := 400\<rparr>"

section \<open>Batch import: merging ranges (TimeRangeEditor)\<close>

text \<open>
  The items that \<open>mergeRanges\<close> receives: the \<open>startSeconds\<close> and \<open>endSeconds\<close> of the
  lines of the batch text that parsed without error.
\<close>

record batch_range =
  startSeconds :: real
  endSeconds :: real

text \<open>
  The body of the \<open>forEach\<close> over the sorted items. \<open>merged[merged.length - 1]\<close> is
  \<open>undefined\<close> on the empty array, which the test \<open>last && ...\<close> rejects; otherwise the
  last element is extended in place or the item is pushed.
\<close>

definition mergeStep :: "batch_range list \<Rightarrow> batch_range \<Rightarrow> batch_range list" where
  "mergeStep merged rng =
     (if merged \<noteq> [] \<and> startSeconds rng \<le> endSeconds (last merged)
      then butlast merged @
             [(last merged)\<lparr>endSeconds := max (endSeconds (last merged)) (endSeconds rng)\<rparr>]
      else merged @ [rng])"

text \<open>
  \<open>[...items].sort((a, b) => a.startSeconds - b.startSeconds)\<close> is a stable sort on the
  start, as \<open>sort_key\<close> is.
\<close>

definition mergeRanges :: "batch_range list \<Rightarrow> batch_range list" where
  "mergeRanges items = foldl mergeStep [] (sort_key startSeconds items)"

text \<open>The time points that a list of ranges covers, and the two invariants of the fold.\<close>

definition covered :: "batch_range list \<Rightarrow> real set" where
  "covered rs = (\<Union>r\<in>set rs. {startSeconds r .. endSeconds r})"

definition well_formed :: "batch_range \<Rightarrow> bool" where
  "well_formed r = (startSeconds r < endSeconds r)"

definition separated :: "batch_range list \<Rightarrow> bool" where
  "separated rs = sorted_wrt (\<lambda>a b. endSeconds a < startSeconds b) rs"

section \<open>Time strings (TimeRangeEditor)\<close>











text \<open>
  \<open>String.prototype.trim\<close> and \<open>String.prototype.split\<close> with a one-character separator.
  The white space of the model is the ASCII white space.
\<close>

definition is_space :: "char \<Rightarrow> bool" where
  "is_space c = (c \<in> {CHR '' '', CHR 0x09, CHR 0x0A, CHR 0x0B, CHR 0x0C, CHR 0x0D})"

definition trim :: "string \<Rightarrow> string" where
  "trim s = rev (dropWhile is_space (rev (dropWhile is_space s)))"

fun split_on :: "char \<Rightarrow> string \<Rightarrow> string list" where
  "split_on sep [] = [[]]"
| "split_on sep (c # cs) =
     (if c = sep then [] # split_on sep cs
      else (case split_on sep cs of [] \<Rightarrow> [[c]] | p # ps \<Rightarrow> (c # p) # ps))"

text \<open>
  \<open>parseTimeToSeconds\<close>. The conversion \<open>Number(part)\<close> belongs to the platform and is a
  parameter: it returns \<open>None\<close> for \<open>NaN\<close>. \<open>is_invalid\<close> is the test of the \<open>some\<close> call,
  \<open>Number.isNaN(value) || value < 0\<close>; the three variables start at 0 and the
  destructuring assigns as many as there are parts.
\<close>

definition is_invalid :: "real option \<Rightarrow> bool" where
  "is_invalid v = (case v of None \<Rightarrow> True | Some x \<Rightarrow> x < 0)"

definition parseTimeToSeconds :: "(string \<Rightarrow> real option) \<Rightarrow> string \<Rightarrow> real option" where
  "parseTimeToSeconds Number input =
     (let cleaned = trim input in
      if cleaned = [] then None
      else
        let parts = map trim (split_on CHR '':'' cleaned) in
        if length parts = 0 \<or> length parts > 3 then None
        else
          let nums = map Number parts in
          if list_ex is_invalid nums then None
          else
            (case map the nums of
               [hours, minutes, seconds] \<Rightarrow> Some (hours * 3600 + minutes * 60 + seconds)
             | [minutes, seconds] \<Rightarrow> Some (0 * 3600 + minutes * 60 + seconds)
             | [seconds] \<Rightarrow> Some (0 * 3600 + 0 * 60 + seconds)
             | _ \<Rightarrow> None))"







section \<open>The split hook (useVideoSplit)\<close>

text \<open>
  The interfaces of the hook. \<open>TimeRange.id\<close> is called \<open>range_id\<close>, \<open>VideoInfo.path\<close> is
  \<open>video_path\<close> and \<open>SplitResult.error\<close> is \<open>result_error\<close>. A number that need not be
  finite is an \<open>option\<close>: \<open>None\<close> stands for \<open>NaN\<close> or an infinity.
\<close>

record VideoInfo =
  video_path :: string
  duration :: real
  duration_formatted :: string
  filename :: string

record SplitProgress =
  current_segment :: int
  total_segments :: "int option"
  percentage :: real
  current_file :: string

record SplitResult =
  success :: bool
  output_files :: "string list"
  result_error :: "string option"

record TimeRange =
  range_id :: string
  startTime :: real
  endTime :: real

record hook_state =
  videoInfo :: "VideoInfo option"
  isLoading :: bool
  isProcessing :: bool
  progress :: "SplitProgress option"
  result :: "SplitResult option"
  error :: "string option"

definition initial_hook :: hook_state where
  "initial_hook =
     \<lparr>videoInfo = None, isLoading = False, isProcessing = False, progress = None,
      result = None, error = None\<rparr>"

text \<open>
  What the hook passes to \<open>invoke\<close>: the command and its arguments. The items of the
  \<open>ranges\<close> argument are \<open>{start_seconds, end_seconds}\<close> objects.
\<close>

record range_payload =
  start_seconds :: real
  end_seconds :: real

datatype split_request =
    Split_video_command string string real
  | Split_video_by_ranges_command string string "range_payload list"

text \<open>
  The two operators of the expression
  \<open>Math.ceil(videoInfo?.duration || 0 / segmentDuration)\<close>. Division binds tighter than
  \<open>||\<close>, so the operands of \<open>||\<close> are \<open>videoInfo?.duration\<close> and \<open>0 / segmentDuration\<close>.
  \<open>a || b\<close> is \<open>a\<close> when \<open>a\<close> is truthy: not \<open>undefined\<close>, not \<open>NaN\<close> (both \<open>None\<close>
  here) and not zero. A quotient with divisor zero is not finite.
\<close>

definition js_or :: "real option \<Rightarrow> real option \<Rightarrow> real option" where
  "js_or a b = (case a of None \<Rightarrow> b | Some x \<Rightarrow> if x \<noteq> 0 then Some x else b)"

definition js_div :: "real \<Rightarrow> real \<Rightarrow> real option" where
  "js_div x y = (if y = 0 then None else Some (x / y))"

definition js_ceil :: "real option \<Rightarrow> int option" where
  "js_ceil v = map_option ceiling v"

text \<open>The literal \<open>current_file\<close> of the initial progress ("preparing..."), as UTF-8.\<close>

definition preparing :: string where
  "preparing =
     [CHR 0xE5, CHR 0x87, CHR 0x86, CHR 0xE5, CHR 0xA4, CHR 0x87, CHR 0xE4, CHR 0xB8,
      CHR 0xAD, CHR 0x2E, CHR 0x2E, CHR 0x2E]"

text \<open>
  \<open>loadVideoInfo\<close>, \<open>splitVideo\<close> and \<open>splitVideoByRanges\<close> are asynchronous: each is
  modelled by what it does before it awaits \<open>invoke\<close> (\<open>_start\<close>), by the request it
  sends (\<open>_request\<close>) and by what it does when the promise settles (\<open>_settled\<close>), where
  \<open>Inr\<close> carries the resolved value and \<open>Inl\<close> the value the promise was rejected with
  (\<open>err as string\<close>). The \<open>finally\<close> block runs in both cases.
\<close>

definition loadVideoInfo_start :: "hook_state \<Rightarrow> hook_state" where
  "loadVideoInfo_start s = s\<lparr>isLoading := True, error := None, result := None, progress := None\<rparr>"

definition loadVideoInfo_settled :: "string + VideoInfo \<Rightarrow> hook_state \<Rightarrow> hook_state" where
  "loadVideoInfo_settled outcome s =
     (case outcome of
        Inr info \<Rightarrow> s\<lparr>videoInfo := Some info\<rparr>
      | Inl err \<Rightarrow> s\<lparr>error := Some err, videoInfo := None\<rparr>)\<lparr>isLoading := False\<rparr>"

definition splitVideo_start :: "real \<Rightarrow> hook_state \<Rightarrow> hook_state" where
  "splitVideo_start segmentDuration s =
     s\<lparr>isProcessing := True, error := None, result := None,
       progress := Some
         \<lparr>current_segment = 0,
          total_segments =
            js_ceil (js_or (map_option duration (videoInfo s)) (js_div 0 segmentDuration)),
          percentage = 0,
          current_file = preparing\<rparr>\<rparr>"

definition splitVideo_request :: "string \<Rightarrow> string \<Rightarrow> real \<Rightarrow> split_request" where
  "splitVideo_request inputPath outputDir segmentDuration =
     Split_video_command inputPath outputDir segmentDuration"

definition splitVideo_settled :: "string + SplitResult \<Rightarrow> hook_state \<Rightarrow> hook_state" where
  "splitVideo_settled outcome s =
     (case outcome of
        Inr splitResult \<Rightarrow> s\<lparr>result := Some splitResult\<rparr>
      | Inl err \<Rightarrow> s\<lparr>error := Some err\<rparr>)\<lparr>isProcessing := False\<rparr>"

definition splitVideoByRanges_start :: "TimeRange list \<Rightarrow> hook_state \<Rightarrow> hook_state" where
  "splitVideoByRanges_start ranges s =
     s\<lparr>isProcessing := True, error := None, result := None,
       progress := Some
         \<lparr>current_segment = 0,
          total_segments = Some (int (length ranges)),
          percentage = 0,
          current_file = preparing\<rparr>\<rparr>"

definition splitVideoByRanges_request ::
    "string \<Rightarrow> string \<Rightarrow> TimeRange list \<Rightarrow> split_request" where
  "splitVideoByRanges_request inputPath outputDir ranges =
     (let rangesPayload =
            map (\<lambda>r. \<lparr>start_seconds = startTime r, end_seconds = endTime r\<rparr>) ranges
      in Split_video_by_ranges_command inputPath outputDir rangesPayload)"

definition splitVideoByRanges_settled ::
    "string + SplitResult \<Rightarrow> hook_state \<Rightarrow> hook_state" where
  "splitVideoByRanges_settled outcome s =
     (case outcome of
        Inr splitResult \<Rightarrow> s\<lparr>result := Some splitResult\<rparr>
      | Inl err \<Rightarrow> s\<lparr>error := Some err\<rparr>)\<lparr>isProcessing := False\<rparr>"

text \<open>The listener of the \<open>split-progress\<close> event.\<close>

definition on_split_progress :: "SplitProgress \<Rightarrow> hook_state \<Rightarrow> hook_state" where
  "on_split_progress payload s = s\<lparr>progress := Some payload\<rparr>"

section \<open>The application (App)\<close>

text \<open>
  The segment count that the App predicts in interval mode,
  \<open>Math.ceil(videoInfo.duration / segmentDuration)\<close>.
\<close>

definition predicted_segments :: "VideoInfo \<Rightarrow> real \<Rightarrow> int option" where
  "predicted_segments info segmentDuration = js_ceil (js_div (duration info) segmentDuration)"

text \<open>
  What the App renders of the hook's \<open>error\<close> and \<open>result\<close>. \<open>{error && (...)}\<close> renders
  the banner, the label followed by the error text, when \<open>error\<close> is truthy: neither null
  nor the empty string. \<open>{result?.success && ...}\<close> renders the list of output files.
\<close>

definition error_label :: string where
  "error_label =
     [CHR 0xE2, CHR 0x9D, CHR 0x8C, CHR 0x20, CHR 0xE9, CHR 0x94, CHR 0x99, CHR 0xE8,
      CHR 0xAF, CHR 0xAF, CHR 0x3A, CHR 0x20]"

definition error_banner :: "hook_state \<Rightarrow> string option" where
  "error_banner s =
     (case error s of
        None \<Rightarrow> None
      | Some e \<Rightarrow> if e = [] then None else Some (error_label @ e))"

definition result_list :: "hook_state \<Rightarrow> string list option" where
  "result_list s =
     (case result s of
        None \<Rightarrow> None
      | Some r \<Rightarrow> if success r then Some (output_files r) else None)"

text \<open>
  The state of the App: its own \<open>useState\<close> cells, the state of the hook, and the split
  requests that were sent and have not settled yet (\<open>inFlight\<close>, which the source does not
  store: it is the set of pending promises).
\<close>

datatype SplitMode = Interval | Ranges

record app_state =
  selectedFile :: "string option"
  segmentDuration :: real
  outputDir :: string
  splitMode :: SplitMode
  timeRanges :: "TimeRange list"
  hook :: hook_state
  inFlight :: "split_request list"


text \<open>
  \<open>canSplit\<close>; a string is truthy when it is not empty. The split button is rendered with
  \<open>disabled={!canSplit}\<close>.
\<close>

definition canSplit :: "app_state \<Rightarrow> bool" where
  "canSplit a =
     ((case selectedFile a of None \<Rightarrow> False | Some f \<Rightarrow> f \<noteq> [])
      \<and> outputDir a \<noteq> []
      \<and> videoInfo (hook a) \<noteq> None
      \<and> \<not> isProcessing (hook a)
      \<and> \<not> isLoading (hook a)
      \<and> (if splitMode a = Interval then segmentDuration a > 0
          else length (timeRanges a) > 0))"

definition handleSplit :: "app_state \<Rightarrow> app_state" where
  "handleSplit a =
     (case selectedFile a of
        None \<Rightarrow> a
      | Some f \<Rightarrow>
          if f = [] \<or> outputDir a = [] then a
          else if splitMode a = Interval then
            a\<lparr>hook := splitVideo_start (segmentDuration a) (hook a),
              inFlight := inFlight a @ [splitVideo_request f (outputDir a) (segmentDuration a)]\<rparr>
          else
            a\<lparr>hook := splitVideoByRanges_start (timeRanges a) (hook a),
              inFlight := inFlight a @ [splitVideoByRanges_request f (outputDir a) (timeRanges a)]\<rparr>)"

definition handleFileSelect :: "string \<Rightarrow> app_state \<Rightarrow> app_state" where
  "handleFileSelect p a =
     a\<lparr>selectedFile := Some p, timeRanges := [], hook := loadVideoInfo_start (hook a)\<rparr>"

text \<open>
  The events of the App. Each event meets the state that was rendered after the event
  before it: the state updates that a handler makes before its first \<open>await\<close> are
  flushed when the handler returns. A click on the split button is delivered only while
  the button is enabled. A settlement concerns the oldest request in flight and runs the
  continuation of the function that sent it. The other events are taken to be possible in
  every state, which is more than the interface allows while a split is running.
\<close>

datatype event =
    ClickSplit
  | SplitSettled "string + SplitResult"
  | SplitProgressEvent SplitProgress
  | FileSelected string
  | VideoInfoSettled "string + VideoInfo"
  | OutputDirChanged string
  | SplitModeChanged SplitMode
  | SegmentDurationChanged real
  | TimeRangesChanged "TimeRange list"

fun step :: "event \<Rightarrow> app_state \<Rightarrow> app_state option" where
  "step ClickSplit a = (if canSplit a then Some (handleSplit a) else None)"
| "step (SplitSettled outcome) a =
     (case inFlight a of
        [] \<Rightarrow> None
      | Split_video_command _ _ _ # rest \<Rightarrow>
          Some (a\<lparr>hook := splitVideo_settled outcome (hook a), inFlight := rest\<rparr>)
      | Split_video_by_ranges_command _ _ _ # rest \<Rightarrow>
          Some (a\<lparr>hook := splitVideoByRanges_settled outcome (hook a), inFlight := rest\<rparr>))"
| "step (SplitProgressEvent payload) a = Some (a\<lparr>hook := on_split_progress payload (hook a)\<rparr>)"
| "step (FileSelected p) a = Some (handleFileSelect p a)"
| "step (VideoInfoSettled outcome) a = Some (a\<lparr>hook := loadVideoInfo_settled outcome (hook a)\<rparr>)"
| "step (OutputDirChanged d) a = Some (a\<lparr>outputDir := d\<rparr>)"
| "step (SplitModeChanged m) a = Some (a\<lparr>splitMode := m\<rparr>)"
| "step (SegmentDurationChanged d) a = Some (a\<lparr>segmentDuration := d\<rparr>)"
| "step (TimeRangesChanged rs) a = Some (a\<lparr>timeRanges := rs\<rparr>)"


section \<open>The range list (App, TimeRangeEditor, RangeSelector)\<close>

text \<open>
  The App owns the list \<open>timeRanges\<close> and hands the editor four callbacks. An update
  carries a \<open>Partial<TimeRange>\<close>: the fields that are present replace those of the
  range with the given id (\<open>{ ...r, ...newRange }\<close>).
\<close>

record TimeRange_partial =
  partial_id :: "string option"
  partial_startTime :: "real option"
  partial_endTime :: "real option"

definition spread :: "TimeRange \<Rightarrow> TimeRange_partial \<Rightarrow> TimeRange" where
  "spread r newRange =
     \<lparr>range_id = nullish (partial_id newRange) (range_id r),
      startTime = nullish (partial_startTime newRange) (startTime r),
      endTime = nullish (partial_endTime newRange) (endTime r)\<rparr>"

definition handleAddRange :: "TimeRange \<Rightarrow> TimeRange list \<Rightarrow> TimeRange list" where
  "handleAddRange rng ranges = ranges @ [rng]"

definition handleUpdateRange ::
    "string \<Rightarrow> TimeRange_partial \<Rightarrow> TimeRange list \<Rightarrow> TimeRange list" where
  "handleUpdateRange i newRange ranges =
     map (\<lambda>r. if range_id r = i then spread r newRange else r) ranges"

definition handleDeleteRange :: "string \<Rightarrow> TimeRange list \<Rightarrow> TimeRange list" where
  "handleDeleteRange i ranges = filter (\<lambda>r. range_id r \<noteq> i) ranges"

definition handleSetRanges :: "TimeRange list \<Rightarrow> TimeRange list \<Rightarrow> TimeRange list" where
  "handleSetRanges nextRanges ranges = nextRanges"

text \<open>The property that the claims state of the list: every range ends after it starts.\<close>

definition valid_ranges :: "TimeRange list \<Rightarrow> bool" where
  "valid_ranges ranges = list_all (\<lambda>r. startTime r < endTime r) ranges"

text \<open>
  The editor's own cells for marking a range, and its two buttons. Each handler gets the
  current playback time and returns the new cells and the new list of the App.
  \<open>if (editingRangeId)\<close> holds for an id that is neither null nor empty. The id of a new
  range, \<open>crypto.randomUUID()\<close>, is the parameter \<open>newId\<close>.
\<close>

record marking_state =
  pendingStart :: "real option"
  editingRangeId :: "string option"

definition editing :: "marking_state \<Rightarrow> string option" where
  "editing e = (case editingRangeId e of None \<Rightarrow> None | Some i \<Rightarrow> if i = [] then None else Some i)"

definition handleSetStart ::
    "real \<Rightarrow> marking_state \<Rightarrow> TimeRange list \<Rightarrow> marking_state \<times> TimeRange list" where
  "handleSetStart now e ranges =
     (case editing e of
        Some i \<Rightarrow>
          (e, handleUpdateRange i
                \<lparr>partial_id = None, partial_startTime = Some now, partial_endTime = None\<rparr> ranges)
      | None \<Rightarrow> (e\<lparr>pendingStart := Some now\<rparr>, ranges))"

definition handleSetEnd ::
    "string \<Rightarrow> real \<Rightarrow> marking_state \<Rightarrow> TimeRange list \<Rightarrow> marking_state \<times> TimeRange list" where
  "handleSetEnd newId now e ranges =
     (case editing e of
        Some i \<Rightarrow>
          (e\<lparr>editingRangeId := None\<rparr>,
           handleUpdateRange i
             \<lparr>partial_id = None, partial_startTime = None, partial_endTime = Some now\<rparr> ranges)
      | None \<Rightarrow>
          (case pendingStart e of
             Some p \<Rightarrow>
               let start = min p now; end = max p now in
               (e\<lparr>pendingStart := None\<rparr>,
                if end > start
                then handleAddRange \<lparr>range_id = newId, startTime = start, endTime = end\<rparr> ranges
                else ranges)
           | None \<Rightarrow> (e, ranges)))"

text \<open>
  The \<open>RangeSelector\<close> component keeps its own kind of range (\<open>id\<close>, \<open>start\<close>, \<open>end\<close>) and
  two cells \<open>start\<close> and \<open>end\<close>; \<open>handleAdd\<close> returns the new cells and the new list. The id,
  \<open>Date.now().toString()\<close>, is a parameter.
\<close>

record selector_range =
  selector_id :: string
  range_start :: real
  range_end :: real

definition handleAdd ::
    "string \<Rightarrow> real \<Rightarrow> real \<times> real \<Rightarrow> selector_range list
      \<Rightarrow> (real \<times> real) \<times> selector_range list" where
  "handleAdd newId videoDuration cells ranges =
     (let start = fst cells; end = snd cells in
      if end \<le> start then (cells, ranges)
      else
        let newRange = \<lparr>selector_id = newId, range_start = start, range_end = end\<rparr>;
            newRanges = sort_key range_start (ranges @ [newRange])
        in ((end, min (end + 10) videoDuration), newRanges))"

section \<open>Batch import (TimeRangeEditor)\<close>

text \<open>The error texts of the batch dialog, as UTF-8.\<close>

definition err_missing_times :: string where
  "err_missing_times =
     [CHR 0xE7, CHR 0xBC, CHR 0xBA, CHR 0xE5, CHR 0xB0, CHR 0x91, CHR 0xE8, CHR 0xB5,
      CHR 0xB7, CHR 0xE6, CHR 0xAD, CHR 0xA2, CHR 0xE6, CHR 0x97, CHR 0xB6, CHR 0xE9,
      CHR 0x97, CHR 0xB4]"

definition err_time_format :: string where
  "err_time_format =
     [CHR 0xE6, CHR 0x97, CHR 0xB6, CHR 0xE9, CHR 0x97, CHR 0xB4, CHR 0xE6, CHR 0xA0,
      CHR 0xBC, CHR 0xE5, CHR 0xBC, CHR 0x8F, CHR 0xE9, CHR 0x94, CHR 0x99, CHR 0xE8,
      CHR 0xAF, CHR 0xAF]"

definition err_end_not_after_start :: string where
  "err_end_not_after_start =
     [CHR 0xE7, CHR 0xBB, CHR 0x93, CHR 0xE6, CHR 0x9D, CHR 0x9F, CHR 0xE6, CHR 0x97,
      CHR 0xB6, CHR 0xE9, CHR 0x97, CHR 0xB4, CHR 0xE5, CHR 0xBF, CHR 0x85, CHR 0xE9,
      CHR 0xA1, CHR 0xBB, CHR 0xE5, CHR 0xA4, CHR 0xA7, CHR 0xE4, CHR 0xBA, CHR 0x8E,
      CHR 0xE5, CHR 0xBC, CHR 0x80, CHR 0xE5, CHR 0xA7, CHR 0x8B, CHR 0xE6, CHR 0x97,
      CHR 0xB6, CHR 0xE9, CHR 0x97, CHR 0xB4]"

definition err_beyond_duration :: string where
  "err_beyond_duration =
     [CHR 0xE6, CHR 0x97, CHR 0xB6, CHR 0xE9, CHR 0x97, CHR 0xB4, CHR 0xE8, CHR 0xB6,
      CHR 0x85, CHR 0xE5, CHR 0x87, CHR 0xBA, CHR 0xE8, CHR 0xA7, CHR 0x86, CHR 0xE9,
      CHR 0xA2, CHR 0x91, CHR 0xE6, CHR 0x97, CHR 0xB6, CHR 0xE9, CHR 0x95, CHR 0xBF]"

definition err_invalid_lines :: string where
  "err_invalid_lines =
     [CHR 0xE5, CHR 0xAD, CHR 0x98, CHR 0xE5, CHR 0x9C, CHR 0xA8, CHR 0xE6, CHR 0x97,
      CHR 0xA0, CHR 0xE6, CHR 0x95, CHR 0x88, CHR 0xE8, CHR 0xA1, CHR 0x8C, CHR 0xEF,
      CHR 0xBC, CHR 0x8C, CHR 0xE8, CHR 0xAF, CHR 0xB7, CHR 0xE4, CHR 0xBF, CHR 0xAE,
      CHR 0xE6, CHR 0xAD, CHR 0xA3, CHR 0xE5, CHR 0x90, CHR 0x8E, CHR 0xE5, CHR 0x86,
      CHR 0x8D, CHR 0xE5, CHR 0xAF, CHR 0xBC, CHR 0xE5, CHR 0x85, CHR 0xA5]"

definition err_no_valid_ranges :: string where
  "err_no_valid_ranges =
     [CHR 0xE6, CHR 0xB2, CHR 0xA1, CHR 0xE6, CHR 0x9C, CHR 0x89, CHR 0xE5, CHR 0x8F,
      CHR 0xAF, CHR 0xE5, CHR 0xAF, CHR 0xBC, CHR 0xE5, CHR 0x85, CHR 0xA5, CHR 0xE7,
      CHR 0x9A, CHR 0x84, CHR 0xE6, CHR 0x9C, CHR 0x89, CHR 0xE6, CHR 0x95, CHR 0x88,
      CHR 0xE7, CHR 0x89, CHR 0x87, CHR 0xE6, CHR 0xAE, CHR 0xB5]"

text \<open>
  One entry of the preview, \<open>BatchParseLine\<close> (its \<open>startSeconds\<close>, \<open>endSeconds\<close> and
  \<open>error\<close> with \<open>line_\<close> before the name), and the body of the loop of \<open>parseBatchText\<close>
  for one non-empty line, from the point where the line has been cut into \<open>tokens\<close>.
  \<open>clamp\<close> is \<open>batchOptions.clamp\<close>.
\<close>

record BatchParseLine =
  lineNumber :: nat
  raw :: string
  line_startSeconds :: "real option"
  line_endSeconds :: "real option"
  line_error :: "string option"
  clamped :: "bool option"

definition parseBatchLine ::
    "(string \<Rightarrow> real option) \<Rightarrow> bool \<Rightarrow> real \<Rightarrow> nat \<Rightarrow> string \<Rightarrow> string list
      \<Rightarrow> BatchParseLine" where
  "parseBatchLine Number clamp videoDuration index line tokens =
     (if length tokens < 2
      then \<lparr>lineNumber = index + 1, raw = line, line_startSeconds = None,
            line_endSeconds = None, line_error = Some err_missing_times, clamped = None\<rparr>
      else
        case (parseTimeToSeconds Number (tokens ! 0), parseTimeToSeconds Number (tokens ! 1)) of
          (Some start, Some end) \<Rightarrow>
            if end \<le> start
            then \<lparr>lineNumber = index + 1, raw = line, line_startSeconds = Some start,
                  line_endSeconds = Some end, line_error = Some err_end_not_after_start,
                  clamped = None\<rparr>
            else
              let doClamp = clamp \<and> videoDuration > 0;
                  finalStart = (if doClamp then min (max start 0) videoDuration else start);
                  finalEnd = (if doClamp then min (max end 0) videoDuration else end);
                  wasClamped = (doClamp \<and> (finalStart \<noteq> start \<or> finalEnd \<noteq> end))
              in
                if videoDuration > 0 \<and> (finalStart \<ge> videoDuration \<or> finalEnd > videoDuration)
                then \<lparr>lineNumber = index + 1, raw = line, line_startSeconds = Some finalStart,
                      line_endSeconds = Some finalEnd, line_error = Some err_beyond_duration,
                      clamped = None\<rparr>
                else if finalEnd \<le> finalStart
                then \<lparr>lineNumber = index + 1, raw = line, line_startSeconds = Some finalStart,
                      line_endSeconds = Some finalEnd,
                      line_error = Some err_end_not_after_start, clamped = None\<rparr>
                else \<lparr>lineNumber = index + 1, raw = line, line_startSeconds = Some finalStart,
                      line_endSeconds = Some finalEnd, line_error = None,
                      clamped = Some wasClamped\<rparr>
        | (start, end) \<Rightarrow>
            \<lparr>lineNumber = index + 1, raw = line, line_startSeconds = start,
             line_endSeconds = end, line_error = Some err_time_format, clamped = None\<rparr>)"

text \<open>
  \<open>parseBatchText\<close> on the lines of the text, each given trimmed and with its tokens;
  empty lines are skipped and keep their line number.
\<close>

definition parseBatchText ::
    "(string \<Rightarrow> real option) \<Rightarrow> bool \<Rightarrow> real \<Rightarrow> (string \<times> string list) list
      \<Rightarrow> BatchParseLine list" where
  "parseBatchText Number clamp videoDuration lines =
     map (\<lambda>(index, line, tokens). parseBatchLine Number clamp videoDuration index line tokens)
       (filter (\<lambda>(index, line, tokens). line \<noteq> []) (enumerate 0 lines))"

text \<open>
  \<open>applyBatchRanges\<close>: the new list of the App, or the error that the dialog shows. An
  entry is valid when its error is falsy and both times are present. \<open>uuid k\<close> is the id
  that \<open>crypto.randomUUID()\<close> returns for the \<open>k\<close>-th new range.
\<close>

datatype batch_mode = Replace | Append

definition line_valid :: "BatchParseLine \<Rightarrow> bool" where
  "line_valid item =
     ((line_error item = None \<or> line_error item = Some [])
      \<and> line_startSeconds item \<noteq> None \<and> line_endSeconds item \<noteq> None)"

definition line_invalid :: "BatchParseLine \<Rightarrow> bool" where
  "line_invalid item = (line_error item \<noteq> None \<and> line_error item \<noteq> Some [])"

definition applyBatchRanges ::
    "(nat \<Rightarrow> string) \<Rightarrow> batch_mode \<Rightarrow> bool \<Rightarrow> bool \<Rightarrow> BatchParseLine list \<Rightarrow> TimeRange list
      \<Rightarrow> string + TimeRange list" where
  "applyBatchRanges uuid mode merge ignoreInvalid batchPreview ranges =
     (let validRanges =
            map (\<lambda>item. \<lparr>startSeconds = the (line_startSeconds item),
                          endSeconds = the (line_endSeconds item)\<rparr>)
              (filter line_valid batchPreview);
          invalidCount = length (filter line_invalid batchPreview)
      in
        if \<not> ignoreInvalid \<and> invalidCount > 0 then Inl err_invalid_lines
        else if length validRanges = 0 then Inl err_no_valid_ranges
        else
          let normalized = (if merge then mergeRanges validRanges else validRanges);
              nextRanges =
                map (\<lambda>(k, item). \<lparr>range_id = uuid k, startTime = startSeconds item,
                                    endTime = endSeconds item\<rparr>)
                  (enumerate 0 normalized)
          in Inr (if mode = Replace then handleSetRanges nextRanges ranges
                  else handleSetRanges (ranges @ nextRanges) ranges))"

text \<open>A list with one range from second 10 to second 20, and the editor editing it.\<close>

definition one_range :: "TimeRange list" where
  "one_range = [\<lparr>range_id = ''r1'', startTime = 10, endTime = 20\<rparr>]"

definition editing_r1 :: marking_state where
  "editing_r1 = \<lparr>pendingStart = None, editingRangeId = Some ''r1''\<rparr>"

section \<open>Invariant and sample inputs\<close>


text \<open>The progress events that arrive between the start of a split and its settlement.\<close>

definition progress_events :: "SplitProgress list \<Rightarrow> hook_state \<Rightarrow> hook_state" where
  "progress_events ps s = fold on_split_progress ps s"

text \<open>
  A ten-minute video, and a session: a file is chosen, its metadata arrives, an output
  directory and one range are set, and the split button is clicked.
\<close>

definition sample_info :: VideoInfo where
  "sample_info = \<lparr>video_path = ''/v/a.mp4'', duration = 600, duration_formatted = ''00:10:00'',
     filename = ''a.mp4''\<rparr>"


section \<open>Properties of the window arithmetic\<close>

lemma clampTime_nonneg: "0 \<le> clampTime d t"
  by (simp add: clampTime_def)

lemma floor_half_twice_le:
  fixes r :: real
  shows "of_int \<lfloor>r / 2\<rfloor> * 2 \<le> r"
proof -
  have "of_int \<lfloor>r / 2\<rfloor> \<le> r / 2" by (rule of_int_floor_le)
  then show ?thesis by simp
qed

lemma floor_half_twice_nat:
  fixes r :: real
  assumes "0 \<le> r"
  shows "\<exists>k::nat. of_int \<lfloor>r / 2\<rfloor> * 2 = real k * 2"
proof -
  from assms have "0 \<le> \<lfloor>r / 2\<rfloor>" by simp
  then have "of_int \<lfloor>r / 2\<rfloor> = real (nat \<lfloor>r / 2\<rfloor>)" by simp
  then show ?thesis by metis
qed

lemma computeWindowStart_unfold:
  "computeWindowStart d t =
     of_int \<lfloor>min (max t 0) (if d > 0 then max 0 (d - 600) else max 0 t) / 2\<rfloor> * 2"
  by (simp add: computeWindowStart_def HLS_SEGMENT_SECONDS_def HLS_WINDOW_SECONDS_def
      HLS_WINDOW_PADDING_def Let_def)

text \<open>
  C10. For every seek target \<open>t\<close> and every timeline duration \<open>d\<close>, the window start
  computed for the clamped target is a natural multiple of the segment length (2 seconds),
  is at most the clamped target, and, when the duration is positive, is at most
  \<open>max 0 (d - 600)\<close>.
\<close>

theorem computeWindowStart_clamped_bounds:
  "(\<exists>k::nat. computeWindowStart d (clampTime d t) = real k * HLS_SEGMENT_SECONDS)
   \<and> computeWindowStart d (clampTime d t) \<le> clampTime d t
   \<and> (0 < d \<longrightarrow> computeWindowStart d (clampTime d t) \<le> max 0 (d - HLS_WINDOW_SECONDS))"
proof -
  define c where "c = clampTime d t"
  define m where "m = (if d > 0 then max 0 (d - 600) else max 0 c)"
  define r where "r = min (max c 0) m"
  have c0: "0 \<le> c" by (simp add: c_def clampTime_nonneg)
  have m0: "0 \<le> m" by (simp add: m_def)
  have r0: "0 \<le> r" using c0 m0 by (simp add: r_def)
  have w: "computeWindowStart d c = of_int \<lfloor>r / 2\<rfloor> * 2"
    by (simp add: computeWindowStart_unfold r_def m_def)
  have le_r: "computeWindowStart d c \<le> r"
    unfolding w by (rule floor_half_twice_le)
  have "\<exists>k::nat. computeWindowStart d c = real k * HLS_SEGMENT_SECONDS"
    unfolding w HLS_SEGMENT_SECONDS_def using r0 by (rule floor_half_twice_nat)
  moreover have "computeWindowStart d c \<le> c"
    using le_r c0 by (simp add: r_def)
  moreover have "0 < d \<longrightarrow> computeWindowStart d c \<le> max 0 (d - HLS_WINDOW_SECONDS)"
    using le_r by (auto simp: r_def m_def HLS_WINDOW_SECONDS_def)
  ultimately show ?thesis by (simp add: c_def)
qed

theorem computeWindowStart_clamped_bounds_witness:
  "(0::real) < 1001
   \<and> computeWindowStart 1001 (clampTime 1001 2000) = 400
   \<and> (\<exists>k::nat. computeWindowStart 1001 (clampTime 1001 2000) = real k * HLS_SEGMENT_SECONDS)
   \<and> computeWindowStart 1001 (clampTime 1001 2000) \<le> clampTime 1001 2000
   \<and> computeWindowStart 1001 (clampTime 1001 2000) \<le> max 0 (1001 - HLS_WINDOW_SECONDS)"
proof -
  have v: "computeWindowStart 1001 (clampTime 1001 2000) = 400"
    by (simp add: computeWindowStart_unfold clampTime_def)
  show ?thesis
    using computeWindowStart_clamped_bounds [of 1001 2000] v by simp
qed

section \<open>Properties of the playback error handler\<close>

lemmas media_err_defs =
  MEDIA_ERR_ABORTED_def MEDIA_ERR_NETWORK_def MEDIA_ERR_DECODE_def
  MEDIA_ERR_SRC_NOT_SUPPORTED_def

lemmas msg_defs =
  msg_load_failed_def msg_aborted_def msg_network_def msg_decode_def
  msg_src_not_supported_def

lemma messages_distinct:
  "distinct [msg_load_failed, msg_aborted, msg_network, msg_decode, msg_src_not_supported]"
  by (simp add: msg_defs)

text \<open>
  C7. After \<open>handleError\<close> the error text is \<open>errorMessage\<close> of the media-error code, whatever
  the state was, and the loading flag is cleared. The four named codes have four messages
  of their own, different from each other and from the default; every other code, and no
  code at all, gives the default load-failure message.
\<close>

theorem handleError_message_by_code:
  "playerError (handleError code s) = Some (errorMessage code)
   \<and> playerLoading (handleError code s) = False
   \<and> errorMessage (Some MEDIA_ERR_ABORTED) = msg_aborted
   \<and> errorMessage (Some MEDIA_ERR_NETWORK) = msg_network
   \<and> errorMessage (Some MEDIA_ERR_DECODE) = msg_decode
   \<and> errorMessage (Some MEDIA_ERR_SRC_NOT_SUPPORTED) = msg_src_not_supported
   \<and> distinct [msg_load_failed, msg_aborted, msg_network, msg_decode, msg_src_not_supported]
   \<and> (code \<notin> {Some MEDIA_ERR_ABORTED, Some MEDIA_ERR_NETWORK, Some MEDIA_ERR_DECODE,
                Some MEDIA_ERR_SRC_NOT_SUPPORTED}
        \<longrightarrow> errorMessage code = msg_load_failed)"
proof -
  have table: "errorMessage (Some MEDIA_ERR_ABORTED) = msg_aborted"
    "errorMessage (Some MEDIA_ERR_NETWORK) = msg_network"
    "errorMessage (Some MEDIA_ERR_DECODE) = msg_decode"
    "errorMessage (Some MEDIA_ERR_SRC_NOT_SUPPORTED) = msg_src_not_supported"
    by (simp_all add: errorMessage_def media_err_defs)
  have other: "code \<notin> {Some MEDIA_ERR_ABORTED, Some MEDIA_ERR_NETWORK, Some MEDIA_ERR_DECODE,
                Some MEDIA_ERR_SRC_NOT_SUPPORTED} \<longrightarrow> errorMessage code = msg_load_failed"
    by (cases code) (simp_all add: errorMessage_def)
  have st: "playerError (handleError code s) = Some (errorMessage code)"
    "playerLoading (handleError code s) = False"
    by (simp_all add: handleError_def)
  from table other st messages_distinct show ?thesis by blast
qed

theorem handleError_message_by_code_witness:
  "Some (7::nat) \<notin> {Some MEDIA_ERR_ABORTED, Some MEDIA_ERR_NETWORK, Some MEDIA_ERR_DECODE,
                Some MEDIA_ERR_SRC_NOT_SUPPORTED}
   \<and> playerError (handleError (Some 7) initial_player) = Some msg_load_failed
   \<and> playerLoading (handleError (Some 7) initial_player) = False"
proof -
  have h: "Some (7::nat) \<notin> {Some MEDIA_ERR_ABORTED, Some MEDIA_ERR_NETWORK,
      Some MEDIA_ERR_DECODE, Some MEDIA_ERR_SRC_NOT_SUPPORTED}"
    by (simp add: media_err_defs)
  show ?thesis
    using h handleError_message_by_code [of "Some 7" initial_player] by simp
qed

section \<open>Properties of the preview source and of seeking\<close>


lemma next_request_window:
  "next_request filePath s s' =
     (if windowStart s' = windowStart s \<and> retryToken s' = retryToken s then None
      else usePreviewSource_request filePath (player_options s'))"
  by (auto simp: next_request_def usePreviewSource_deps_def player_options_def nullish_def)










text \<open>
  A deferred seek need not change the window. In a 1001-second video the last window
  starts at second 400 (where a seek to second 900 puts it) and ends at second 1000; a
  seek to second 1000.5 is outside it and is deferred, the recomputed window start is 400
  again, and no request follows.
\<close>

lemma deferred_seek_same_window:
  "snd (seekToAbsolute 1001 900 hls_player)
     = hls_player\<lparr>windowStart := 400, pendingSeek := Some 900, currentTime := 900,
                   playerLoading := True\<rparr>
   \<and> \<not> in_window last_window_player (clampTime 1001 (2001 / 2))
   \<and> seekToAbsolute 1001 (2001 / 2) last_window_player
       = (True, last_window_player\<lparr>pendingSeek := Some (2001 / 2), currentTime := 2001 / 2,
                                     playerLoading := True\<rparr>)
   \<and> next_request ''/v/a.mp4'' last_window_player
         (snd (seekToAbsolute 1001 (2001 / 2) last_window_player)) = None"
proof -
  have c: "clampTime 1001 900 = 900" "clampTime 1001 (2001 / 2) = 2001 / 2"
    by (simp_all add: clampTime_def)
  have w: "computeWindowStart 1001 900 = 400" "computeWindowStart 1001 (2001 / 2) = 400"
    by (simp_all add: computeWindowStart_unfold)
  show ?thesis
    by (simp add: seekToAbsolute_def Let_def c w defer_seek_def in_window_def
        HLS_WINDOW_SECONDS_def last_window_player_def hls_player_def initial_player_def
        next_request_window)
qed

section \<open>Properties of mergeRanges\<close>

lemma covered_snoc: "covered (rs @ [r]) = covered rs \<union> {startSeconds r .. endSeconds r}"
  by (auto simp: covered_def)

lemma covered_Nil: "covered [] = {}" by (simp add: covered_def)
lemma covered_Cons: "covered (r # rs) = {startSeconds r .. endSeconds r} \<union> covered rs"
  by (auto simp: covered_def)

lemma separated_snoc:
  "separated (rs @ [r]) = (separated rs \<and> (\<forall>a\<in>set rs. endSeconds a < startSeconds r))"
  by (auto simp: separated_def sorted_wrt_append)

lemma mergeStep_push:
  assumes "merged = [] \<or> endSeconds (last merged) < startSeconds rng"
  shows "mergeStep merged rng = merged @ [rng]"
  using assms by (auto simp: mergeStep_def)

lemma mergeStep_extend:
  assumes "startSeconds rng \<le> endSeconds l"
  shows "mergeStep (b @ [l]) rng = b @ [l\<lparr>endSeconds := max (endSeconds l) (endSeconds rng)\<rparr>]"
  using assms by (simp add: mergeStep_def)

lemma mergeStep_inv:
  assumes sep: "separated m" and wf: "\<forall>a\<in>set m. well_formed a" and wfx: "well_formed x"
    and lo: "\<forall>a\<in>set m. startSeconds a \<le> startSeconds x"
  shows "separated (mergeStep m x) \<and> (\<forall>a\<in>set (mergeStep m x). well_formed a)
     \<and> (\<forall>a\<in>set (mergeStep m x). startSeconds a \<le> startSeconds x)
     \<and> covered (mergeStep m x) = covered m \<union> {startSeconds x .. endSeconds x}"
proof (cases "m = [] \<or> endSeconds (last m) < startSeconds x")
  case True
  then have eq: "mergeStep m x = m @ [x]" by (rule mergeStep_push)
  have "\<forall>a\<in>set m. endSeconds a < startSeconds x"
  proof
    fix a assume a: "a \<in> set m"
    then have ne: "m \<noteq> []" by auto
    with True have l: "endSeconds (last m) < startSeconds x" by simp
    from ne obtain b where m: "m = b @ [last m]" by (metis append_butlast_last_id)
    show "endSeconds a < startSeconds x"
    proof (cases "a = last m")
      case True with l show ?thesis by simp
    next
      case False
      with a m have "a \<in> set b" by (metis Un_iff empty_iff empty_set set_ConsD set_append)
      with sep m have "endSeconds a < startSeconds (last m)"
        by (metis separated_snoc)
      moreover have "well_formed (last m)" using wf ne by simp
      ultimately show ?thesis using l by (simp add: well_formed_def)
    qed
  qed
  then show ?thesis using sep wf wfx lo by (simp add: eq separated_snoc covered_snoc)
next
  case False
  then have ne: "m \<noteq> []" and le: "startSeconds x \<le> endSeconds (last m)" by auto
  define l where "l = last m"
  define b where "b = butlast m"
  have m: "m = b @ [l]" using ne by (simp add: l_def b_def)
  let ?l' = "l\<lparr>endSeconds := max (endSeconds l) (endSeconds x)\<rparr>"
  have eq: "mergeStep m x = b @ [?l']" using le unfolding m by (simp add: mergeStep_extend l_def[symmetric])
  have lx: "startSeconds l \<le> startSeconds x" using lo m by simp
  have wl: "well_formed l" using wf m by simp
  have "{startSeconds l .. max (endSeconds l) (endSeconds x)}
      = {startSeconds l .. endSeconds l} \<union> {startSeconds x .. endSeconds x}"
    using lx le wl wfx unfolding l_def[symmetric] well_formed_def by auto
  then have cov: "covered (b @ [?l']) = covered m \<union> {startSeconds x .. endSeconds x}"
    unfolding m by (simp add: covered_snoc Un_assoc)
  have sep': "separated (b @ [?l'])" using sep unfolding m by (simp add: separated_snoc)
  have wf': "\<forall>a\<in>set (b @ [?l']). well_formed a"
    using wf wl unfolding m by (auto simp: well_formed_def)
  have lo': "\<forall>a\<in>set (b @ [?l']). startSeconds a \<le> startSeconds x"
    using lo unfolding m by auto
  show ?thesis unfolding eq using cov sep' wf' lo' by blast
qed

lemma foldl_mergeStep_inv:
  assumes "sorted (map startSeconds xs)" "\<forall>x\<in>set xs. well_formed x"
    "separated m" "\<forall>a\<in>set m. well_formed a"
    "\<forall>a\<in>set m. \<forall>x\<in>set xs. startSeconds a \<le> startSeconds x"
  shows "separated (foldl mergeStep m xs) \<and> (\<forall>a\<in>set (foldl mergeStep m xs). well_formed a)
     \<and> covered (foldl mergeStep m xs) = covered m \<union> covered xs"
  using assms
proof (induction xs arbitrary: m)
  case Nil
  then show ?case by (simp add: covered_Nil)
next
  case (Cons x xs)
  have step: "separated (mergeStep m x) \<and> (\<forall>a\<in>set (mergeStep m x). well_formed a)
     \<and> (\<forall>a\<in>set (mergeStep m x). startSeconds a \<le> startSeconds x)
     \<and> covered (mergeStep m x) = covered m \<union> {startSeconds x .. endSeconds x}"
    using Cons.prems by (intro mergeStep_inv) auto
  have srt: "sorted (map startSeconds xs)" and xle: "\<forall>y\<in>set xs. startSeconds x \<le> startSeconds y"
    using Cons.prems(1) by auto
  have lo: "\<forall>a\<in>set (mergeStep m x). \<forall>y\<in>set xs. startSeconds a \<le> startSeconds y"
    using step xle by force
  have "separated (foldl mergeStep (mergeStep m x) xs)
     \<and> (\<forall>a\<in>set (foldl mergeStep (mergeStep m x) xs). well_formed a)
     \<and> covered (foldl mergeStep (mergeStep m x) xs) = covered (mergeStep m x) \<union> covered xs"
    using Cons.IH[OF srt _ _ _ lo] step Cons.prems(2) by simp
  then show ?case using step by (simp add: covered_Cons Un_assoc)
qed

lemma covered_sort_key: "covered (sort_key f xs) = covered xs"
  by (simp add: covered_def)

text \<open>
  C9. For items that all have \<open>startSeconds < endSeconds\<close>, the result of \<open>mergeRanges\<close>
  is in ascending order of \<open>startSeconds\<close>, every range of the result starts strictly
  after the end of every range before it (so the ranges are pairwise disjoint), and the
  result covers exactly the time points that the items cover.
\<close>

theorem mergeRanges_normalizes:
  assumes "\<forall>r\<in>set items. startSeconds r < endSeconds r"
  shows "sorted_wrt (\<lambda>a b. startSeconds a < startSeconds b) (mergeRanges items)
    \<and> sorted_wrt (\<lambda>a b. endSeconds a < startSeconds b) (mergeRanges items)
    \<and> (\<Union>r\<in>set (mergeRanges items). {startSeconds r .. endSeconds r})
       = (\<Union>r\<in>set items. {startSeconds r .. endSeconds r})"
proof -
  let ?s = "sort_key startSeconds items"
  have inv: "separated (mergeRanges items) \<and> (\<forall>a\<in>set (mergeRanges items). well_formed a)
     \<and> covered (mergeRanges items) = covered [] \<union> covered ?s"
    unfolding mergeRanges_def
    using assms by (intro foldl_mergeStep_inv) (simp_all add: separated_def well_formed_def)
  then have sep: "sorted_wrt (\<lambda>a b. endSeconds a < startSeconds b) (mergeRanges items)"
    and wf: "\<forall>a\<in>set (mergeRanges items). startSeconds a < endSeconds a"
    and cov: "covered (mergeRanges items) = covered items"
    by (simp_all add: separated_def well_formed_def covered_Nil covered_sort_key)
  have "sorted_wrt (\<lambda>a b. startSeconds a < startSeconds b) (mergeRanges items)"
  proof (rule sorted_wrt_mono_rel[OF _ sep])
    fix a b
    assume "a \<in> set (mergeRanges items)" and "endSeconds a < startSeconds b"
    with wf show "startSeconds a < startSeconds b" by fastforce
  qed
  with sep cov show ?thesis by (simp add: covered_def)
qed

theorem mergeRanges_normalizes_witness:
  "mergeRanges [\<lparr>startSeconds = 5, endSeconds = 7\<rparr>, \<lparr>startSeconds = 1, endSeconds = 3\<rparr>,
               \<lparr>startSeconds = 3, endSeconds = 4\<rparr>]
       = [\<lparr>startSeconds = 1, endSeconds = 4\<rparr>, \<lparr>startSeconds = 5, endSeconds = 7\<rparr>]
   \<and> (\<Union>r\<in>set [\<lparr>startSeconds = 1, endSeconds = 4\<rparr>, \<lparr>startSeconds = 5, endSeconds = 7::real\<rparr>].
          {startSeconds r .. endSeconds r})
       = (\<Union>r\<in>set [\<lparr>startSeconds = 5, endSeconds = 7\<rparr>, \<lparr>startSeconds = 1, endSeconds = 3\<rparr>,
               \<lparr>startSeconds = 3, endSeconds = 4\<rparr>]. {startSeconds r .. endSeconds r})"
proof -
  let ?items = "[\<lparr>startSeconds = 5, endSeconds = 7\<rparr>, \<lparr>startSeconds = 1, endSeconds = 3\<rparr>,
               \<lparr>startSeconds = 3, endSeconds = 4::real\<rparr>]"
  have h: "\<forall>r\<in>set ?items. startSeconds r < endSeconds r" by simp
  have v: "mergeRanges ?items
       = [\<lparr>startSeconds = 1, endSeconds = 4\<rparr>, \<lparr>startSeconds = 5, endSeconds = 7\<rparr>]"
    by (simp add: mergeRanges_def mergeStep_def)
  from mergeRanges_normalizes [OF h] have
    "(\<Union>r\<in>set (mergeRanges ?items). {startSeconds r .. endSeconds r})
       = (\<Union>r\<in>set ?items. {startSeconds r .. endSeconds r})" by blast
  with v show ?thesis by simp
qed

section \<open>Properties of the time strings\<close>























section \<open>Properties of the split hook and the App\<close>




lemma canSplit_not_processing: "canSplit a \<Longrightarrow> \<not> isProcessing (hook a)"
  by (simp add: canSplit_def)







text \<open>
  C3. The request of \<open>splitVideoByRanges\<close> is the command \<open>split_video_by_ranges_command\<close>
  with a payload that has one item per range, in the order of the ranges, whose
  \<open>start_seconds\<close> and \<open>end_seconds\<close> are the \<open>startTime\<close> and \<open>endTime\<close> of the range; when
  the command resolves, the resolved \<open>SplitResult\<close> becomes the \<open>result\<close> state as it is.
\<close>

theorem splitVideoByRanges_payload_and_result:
  "(\<exists>payload.
      splitVideoByRanges_request inputPath outDir ranges
        = Split_video_by_ranges_command inputPath outDir payload
      \<and> length payload = length ranges
      \<and> map start_seconds payload = map startTime ranges
      \<and> map end_seconds payload = map endTime ranges)
   \<and> result (splitVideoByRanges_settled (Inr splitResult) s) = Some splitResult"
  by (simp add: splitVideoByRanges_request_def splitVideoByRanges_settled_def comp_def)

lemma splitVideo_total_segments_ignores_segmentDuration:
  assumes "videoInfo s = Some info" "duration info \<noteq> 0"
  shows "map_option total_segments (progress (splitVideo_start d s))
           = Some (Some \<lceil>duration info\<rceil>)"
  using assms by (simp add: splitVideo_start_def js_or_def js_ceil_def)

text \<open>
  C4, at a ten-minute video split into five-minute segments: the initial progress of
  \<open>splitVideo\<close> has \<open>current_segment\<close> 0 and \<open>percentage\<close> 0, and its \<open>total_segments\<close> is
  600, the ceiling of the duration alone, where the App predicts
  \<open>Math.ceil(600 / 300) = 2\<close> segments.
\<close>

theorem splitVideo_initial_total_segments_600_300:
  "map_option current_segment
       (progress (splitVideo_start 300 (initial_hook\<lparr>videoInfo := Some sample_info\<rparr>))) = Some 0
   \<and> map_option percentage
       (progress (splitVideo_start 300 (initial_hook\<lparr>videoInfo := Some sample_info\<rparr>))) = Some 0
   \<and> map_option total_segments
       (progress (splitVideo_start 300 (initial_hook\<lparr>videoInfo := Some sample_info\<rparr>)))
         = Some (Some 600)
   \<and> predicted_segments sample_info 300 = Some 2"
  by (simp add: splitVideo_start_def initial_hook_def sample_info_def js_or_def js_div_def
      js_ceil_def predicted_segments_def)

lemma progress_events_keep:
  "result (progress_events ps s) = result s"
  "error (progress_events ps s) = error s"
  "isProcessing (progress_events ps s) = isProcessing s"
  unfolding progress_events_def
  by (induction ps arbitrary: s) (simp_all add: on_split_progress_def)

text \<open>
  C5, as the code has it. When the split command is rejected with \<open>msg\<close>, after a start
  and any progress events, the \<open>error\<close> state is \<open>msg\<close> itself, the \<open>result\<close> state is null
  and no list of output files is rendered, and \<open>isProcessing\<close> is false; the banner shows
  the message when the message is not empty. The start of either split clears \<open>error\<close>
  and \<open>result\<close>.
\<close>

theorem split_rejection_surfaces_message:
  "error (splitVideo_settled (Inl msg) (progress_events ps (splitVideo_start d s))) = Some msg
   \<and> result (splitVideo_settled (Inl msg) (progress_events ps (splitVideo_start d s))) = None
   \<and> result_list (splitVideo_settled (Inl msg) (progress_events ps (splitVideo_start d s))) = None
   \<and> \<not> isProcessing (splitVideo_settled (Inl msg) (progress_events ps (splitVideo_start d s)))
   \<and> (msg \<noteq> [] \<longrightarrow>
        error_banner (splitVideo_settled (Inl msg) (progress_events ps (splitVideo_start d s)))
          = Some (error_label @ msg))
   \<and> error (splitVideoByRanges_settled (Inl msg)
        (progress_events ps (splitVideoByRanges_start rs s))) = Some msg
   \<and> result (splitVideoByRanges_settled (Inl msg)
        (progress_events ps (splitVideoByRanges_start rs s))) = None
   \<and> result_list (splitVideoByRanges_settled (Inl msg)
        (progress_events ps (splitVideoByRanges_start rs s))) = None
   \<and> \<not> isProcessing (splitVideoByRanges_settled (Inl msg)
        (progress_events ps (splitVideoByRanges_start rs s)))
   \<and> (msg \<noteq> [] \<longrightarrow>
        error_banner (splitVideoByRanges_settled (Inl msg)
          (progress_events ps (splitVideoByRanges_start rs s))) = Some (error_label @ msg))
   \<and> error (splitVideo_start d s) = None \<and> result (splitVideo_start d s) = None
   \<and> error (splitVideoByRanges_start rs s) = None
   \<and> result (splitVideoByRanges_start rs s) = None"
proof -
  have st: "error (splitVideo_start d s) = None" "result (splitVideo_start d s) = None"
    "error (splitVideoByRanges_start rs s) = None"
    "result (splitVideoByRanges_start rs s) = None"
    by (simp_all add: splitVideo_start_def splitVideoByRanges_start_def)
  have rej: "error (splitVideo_settled (Inl msg) t) = Some msg"
    "result (splitVideo_settled (Inl msg) t) = result t"
    "\<not> isProcessing (splitVideo_settled (Inl msg) t)"
    "error (splitVideoByRanges_settled (Inl msg) t) = Some msg"
    "result (splitVideoByRanges_settled (Inl msg) t) = result t"
    "\<not> isProcessing (splitVideoByRanges_settled (Inl msg) t)" for t
    by (simp_all add: splitVideo_settled_def splitVideoByRanges_settled_def)
  show ?thesis
    by (simp add: st rej progress_events_keep error_banner_def result_list_def)
qed

theorem split_rejection_surfaces_message_witness:
  "''ffmpeg failed'' \<noteq> []
   \<and> error_banner (splitVideo_settled (Inl ''ffmpeg failed'')
        (progress_events [] (splitVideo_start 300 initial_hook)))
       = Some (error_label @ ''ffmpeg failed'')
   \<and> error_banner (splitVideoByRanges_settled (Inl ''ffmpeg failed'')
        (progress_events [] (splitVideoByRanges_start [] initial_hook)))
       = Some (error_label @ ''ffmpeg failed'')"
proof -
  have h: "''ffmpeg failed'' \<noteq> []" by simp
  from split_rejection_surfaces_message [of "''ffmpeg failed''" "[]" 300 initial_hook "[]"] h
  show ?thesis by blast
qed

text \<open>
  A rejection with the empty string: the \<open>error\<close> state is the empty string, and the App
  renders no banner.
\<close>

theorem split_rejection_empty_message_not_rendered:
  "error (splitVideo_settled (Inl [])
      (progress_events [] (splitVideo_start 300 initial_hook))) = Some []
   \<and> error_banner (splitVideo_settled (Inl [])
      (progress_events [] (splitVideo_start 300 initial_hook))) = None"
  by (simp add: splitVideo_settled_def progress_events_def error_banner_def)

section \<open>Properties of the range list\<close>

lemma handleSetStart_marking:
  assumes "editing e = None"
  shows "handleSetStart now e ranges = (e\<lparr>pendingStart := Some now\<rparr>, ranges)"
  using assms by (simp add: handleSetStart_def)

lemma handleSetEnd_adds_valid:
  assumes "editing e = None" "valid_ranges ranges"
  shows "valid_ranges (snd (handleSetEnd newId now e ranges))"
  using assms
  by (auto simp: handleSetEnd_def handleAddRange_def valid_ranges_def Let_def
      split: option.splits)

lemma handleDeleteRange_valid:
  assumes "valid_ranges ranges"
  shows "valid_ranges (handleDeleteRange i ranges)"
  using assms by (simp add: handleDeleteRange_def valid_ranges_def list_all_iff)

lemma handleAdd_valid:
  assumes "list_all (\<lambda>r. range_start r < range_end r) ranges"
  shows "list_all (\<lambda>r. range_start r < range_end r) (snd (handleAdd newId d cells ranges))"
  using assms by (auto simp: handleAdd_def Let_def list_all_iff)

lemma batch_errors_nonempty:
  "err_missing_times \<noteq> []" "err_time_format \<noteq> []" "err_end_not_after_start \<noteq> []"
  "err_beyond_duration \<noteq> []"
  by (simp_all add: err_missing_times_def err_time_format_def err_end_not_after_start_def
      err_beyond_duration_def)

lemma parseBatchLine_valid:
  assumes "line_valid (parseBatchLine Number clamp d index line tokens)"
  shows "\<exists>a b. line_startSeconds (parseBatchLine Number clamp d index line tokens) = Some a
     \<and> line_endSeconds (parseBatchLine Number clamp d index line tokens) = Some b \<and> a < b"
  using assms
  by (auto simp: parseBatchLine_def line_valid_def Let_def batch_errors_nonempty
      split: if_splits option.splits prod.splits)

lemma parseBatchText_valid:
  assumes "item \<in> set (parseBatchText Number clamp d lines)" "line_valid item"
  shows "\<exists>a b. line_startSeconds item = Some a \<and> line_endSeconds item = Some b \<and> a < b"
  using assms by (auto simp: parseBatchText_def dest: parseBatchLine_valid)

lemma mergeRanges_well_formed:
  assumes "\<forall>r\<in>set items. well_formed r"
  shows "\<forall>r\<in>set (mergeRanges items). well_formed r"
proof -
  have "separated (mergeRanges items) \<and> (\<forall>a\<in>set (mergeRanges items). well_formed a)
     \<and> covered (mergeRanges items) = covered [] \<union> covered (sort_key startSeconds items)"
    unfolding mergeRanges_def
    using assms by (intro foldl_mergeStep_inv) (simp_all add: separated_def)
  then show ?thesis by blast
qed

lemma applyBatchRanges_valid:
  assumes prev: "batchPreview = parseBatchText Number clamp d lines"
    and ok: "applyBatchRanges uuid mode merge ignoreInvalid batchPreview ranges = Inr ranges'"
    and v: "valid_ranges ranges"
  shows "valid_ranges ranges'"
proof -
  define validRanges where "validRanges =
            map (\<lambda>item. \<lparr>startSeconds = the (line_startSeconds item),
                          endSeconds = the (line_endSeconds item)\<rparr>)
              (filter line_valid batchPreview)"
  define normalized where "normalized = (if merge then mergeRanges validRanges else validRanges)"
  define nextRanges where "nextRanges =
                map (\<lambda>(k, item). \<lparr>range_id = uuid k, startTime = startSeconds item,
                                    endTime = endSeconds item\<rparr>)
                  (enumerate 0 normalized)"
  have wf: "\<forall>r\<in>set validRanges. well_formed r"
    unfolding validRanges_def prev
    by (auto simp: well_formed_def dest!: parseBatchText_valid)
  then have "\<forall>r\<in>set normalized. well_formed r"
    unfolding normalized_def by (simp add: mergeRanges_well_formed)
  then have nx: "valid_ranges nextRanges"
    unfolding nextRanges_def valid_ranges_def list_all_iff
    by (auto simp: well_formed_def in_set_enumerate_eq)
  from ok have "ranges' = nextRanges \<or> ranges' = ranges @ nextRanges"
    unfolding applyBatchRanges_def Let_def validRanges_def[symmetric]
      normalized_def[symmetric] nextRanges_def[symmetric]
    by (auto simp: handleSetRanges_def split: if_splits)
  with nx v show ?thesis by (auto simp: valid_ranges_def)
qed

text \<open>
  C1, at a list with the one range from second 10 to second 20, which the editor is
  editing. The list is valid. \<open>handleSetStart\<close> at playback time 30 moves the start of the
  range to 30 and leaves its end at 20; \<open>handleSetEnd\<close> at playback time 5 moves its end to
  5 and leaves its start at 10. Either way the range no longer ends after it starts.
  (The lemmas above show that marking a new range, adding in the range selector,
  deleting and batch import keep the list valid.)
\<close>

theorem edit_breaks_range_order:
  "valid_ranges one_range
   \<and> handleSetStart 30 editing_r1 one_range
       = (editing_r1, [\<lparr>range_id = ''r1'', startTime = 30, endTime = 20\<rparr>])
   \<and> \<not> valid_ranges (snd (handleSetStart 30 editing_r1 one_range))
   \<and> handleSetEnd ''r2'' 5 editing_r1 one_range
       = (editing_r1\<lparr>editingRangeId := None\<rparr>,
          [\<lparr>range_id = ''r1'', startTime = 10, endTime = 5\<rparr>])
   \<and> \<not> valid_ranges (snd (handleSetEnd ''r2'' 5 editing_r1 one_range))"
  by (simp add: valid_ranges_def one_range_def editing_r1_def handleSetStart_def
      handleSetEnd_def editing_def handleUpdateRange_def spread_def nullish_def)

end
